theory Spec2Isabelle
  imports Complex_Main
begin

section \<open>Data model of \<open>scripts/2d_data_generation.py\<close>\<close>

text \<open>
  An obstacle descriptor of the script is a Python tuple
  \<^verbatim>\<open>(kind, position, size)\<close> or \<^verbatim>\<open>(kind, position, size, tag)\<close>:
  the kind is the string \<^verbatim>\<open>'circle'\<close> or \<^verbatim>\<open>'rect'\<close>, the position a pair of numbers,
  the size a single number (a radius) or a pair (the extents of a rectangle), the tag an
  integer that only the two-class scenes carry. Numbers are read as reals, so the integer
  \<^verbatim>\<open>1\<close> and the float \<^verbatim>\<open>1.0\<close> of the script are the same value, as they are under
  Python's \<^verbatim>\<open>==\<close>; a position is a pair whether the script holds it in a tuple (the
  table) or in a list (\<^verbatim>\<open>pos.tolist()\<close>).
\<close>

datatype extent = Scalar real | Extents real real

datatype obstacle =
  Obstacle (kind: string) (position: "real \<times> real") (extent: extent) (class_tag: "int option")

text \<open>
  The exceptions the script can raise by itself are the two \<^verbatim>\<open>KeyError\<close>s of its
  dictionary lookups; a \<^verbatim>\<open>KeyError\<close> carries the missing key, a string for the scene
  table and an integer for the table of link lengths. The command-line parser leaves the
  process with status 2 on an argument it rejects. The two seeding calls reject a seed
  outside their range: \<^verbatim>\<open>torch.manual_seed\<close> with a \<^verbatim>\<open>RuntimeError\<close>,
  \<^verbatim>\<open>np.random.seed\<close> with a \<^verbatim>\<open>ValueError\<close>.
\<close>

datatype key = StrKey string | IntKey int

datatype error = KeyError key | SystemExit int | RuntimeError | ValueError

text \<open>The parameters of \<^verbatim>\<open>main\<close>, which are also the attributes of the parsed arguments.\<close>

record args =
  env_name :: string
  folder :: string
  label_type :: string
  num_class :: int
  dof :: int
  num_init_points :: int
  random_seed :: int
  width :: real

text \<open>
  The collaborators (torch, numpy, the robot model, the generation routine) are outside
  the script. Their calls are recorded in the order in which \<^verbatim>\<open>main\<close> makes them, a
  call that raises included. A robot model is the record of its constructor's arguments
  (link length, link width, degrees of freedom); what the constructor and the generation
  routine do with their arguments is not part of this development.
\<close>

datatype robot = RevolutePlanarRobot real real int

record generate_call =
  gen_robot :: robot
  gen_folder :: string
  gen_obstacles :: "obstacle list"
  gen_label_type :: string
  gen_num_class :: int
  gen_num_points :: int
  gen_env_id :: string
  gen_vis :: bool

datatype call =
    Torch_manual_seed int
  | Np_random_seed int
  | Construct_robot robot
  | Generate_data_planar_manipulators generate_call

text \<open>
  The process-wide state the script touches: the state of numpy's global generator, of an
  abstract type \<open>'g\<close>, and the calls made so far to the collaborators.
\<close>

record 'g world =
  np_random :: 'g
  calls :: "call list"

text \<open>
  What the script uses of torch and numpy, taken as a parameter: whether
  \<^verbatim>\<open>torch.manual_seed\<close> accepts a seed, \<^verbatim>\<open>np.random.seed\<close> (the generator state a
  seed stands for, or none when numpy rejects the seed), \<^verbatim>\<open>np.random.rand(2,)\<close> (two
  draws and the state after them) and the rounding of one double-precision operation.
\<close>

record 'g library =
  torch_seed_ok :: "int \<Rightarrow> bool"
  np_seed :: "int \<Rightarrow> 'g option"
  np_rand2 :: "'g \<Rightarrow> (real \<times> real) \<times> 'g"
  fl :: "real \<Rightarrow> real"

section \<open>The scene table\<close>

definition predefined_obstacles :: "string \<rightharpoonup> obstacle list" where
  "predefined_obstacles = map_of
    [(''1rect_1circle'',
        [Obstacle ''rect'' (4, 3) (Extents 2 2) None,
         Obstacle ''circle'' (-4, -3) (Scalar 1) None]),
     (''3circle'',
        [Obstacle ''circle'' (0, 4.5) (Scalar 1) None,
         Obstacle ''circle'' (-2, -3) (Scalar 2) None,
         Obstacle ''circle'' (-2, 2) (Scalar 1.5) None]),
     (''1rect_1circle_7d'',
        [Obstacle ''circle'' (-2, 3) (Scalar 1) None,
         Obstacle ''rect'' (3, 2) (Extents 2 2) None]),
     (''2class_1'',
        [Obstacle ''rect'' (5, 0) (Extents 2 2) (Some 0),
         Obstacle ''circle'' (-3, 6) (Scalar 1) (Some 1),
         Obstacle ''rect'' (-5, 2) (Extents 2 1.5) (Some 1),
         Obstacle ''circle'' (-5, -2) (Scalar 1.5) (Some 1),
         Obstacle ''circle'' (-3, -6) (Scalar 1) (Some 1)]),
     (''2class_2'',
        [Obstacle ''rect'' (0, 3) (Extents 16 0.5) (Some 1),
         Obstacle ''rect'' (0, -3) (Extents 16 0.5) (Some 0)]),
     (''3circle_7d'',
        [Obstacle ''circle'' (-2, 2) (Scalar 1) None,
         Obstacle ''circle'' (-3, 3) (Scalar 1) None,
         Obstacle ''circle'' (-6, -3) (Scalar 1) None])]"

text \<open>The table \<^verbatim>\<open>lengths = {2: 3.5, 3: 2, 7: 1}\<close> of the last branch of \<^verbatim>\<open>main\<close>.\<close>

definition lengths :: "int \<rightharpoonup> real" where
  "lengths = map_of [(2, 3.5), (3, 2), (7, 1)]"

section \<open>The builder\<close>

text \<open>
  The loop \<^verbatim>\<open>for i in range(n)\<close> that the script writes three times: each round draws
  \<^verbatim>\<open>np.random.rand(2,)\<close>, computes \<^verbatim>\<open>pos = rand * (ub - lb) + lb\<close> componentwise in
  double precision, and appends \<^verbatim>\<open>('rect', pos, (1, 1))\<close> to the list.
\<close>

definition scaled :: "'g library \<Rightarrow> real \<Rightarrow> real \<Rightarrow> real \<Rightarrow> real" where
  "scaled lib r l u = fl lib (fl lib (r * fl lib (u - l)) + l)"

fun sample_rects ::
  "'g library \<Rightarrow> real \<times> real \<Rightarrow> real \<times> real \<Rightarrow> nat \<Rightarrow> obstacle list \<Rightarrow> 'g \<Rightarrow> obstacle list \<times> 'g"
where
  "sample_rects lib lb ub 0 obstacles g = (obstacles, g)"
| "sample_rects lib lb ub (Suc n) obstacles g =
     (case np_rand2 lib g of
        ((r0, r1), g') \<Rightarrow>
          sample_rects lib lb ub n
            (obstacles @
              [Obstacle ''rect'' (scaled lib r0 (fst lb) (fst ub), scaled lib r1 (snd lb) (snd ub))
                 (Extents 1 1) None])
            g')"

text \<open>
  The \<^verbatim>\<open>if\<close>/\<^verbatim>\<open>elif\<close>/\<^verbatim>\<open>else\<close> of \<^verbatim>\<open>main\<close>: the obstacles and the link length of a
  scene, with the generator state after the draws, or the \<^verbatim>\<open>KeyError\<close> of the lookup that
  fails. The scene table is read before the table of lengths.
\<close>

definition resolve_scene ::
  "'g library \<Rightarrow> string \<Rightarrow> int \<Rightarrow> 'g \<Rightarrow> error + (obstacle list \<times> real) \<times> 'g"
where
  "resolve_scene lib env dof_arg g =
     (if env = ''7d_narrow'' then
        (case sample_rects lib (-8, 1) (8, 8) 150 [] g of
           (upper, g1) \<Rightarrow>
             (case sample_rects lib (-8, -8) (8, -1) 150 upper g1 of
                (obstacles, g2) \<Rightarrow> Inr ((obstacles, 1), g2)))
      else if env = ''3d_halfnarrow'' then
        (case sample_rects lib (-8, 1) (8, 8) 150 [] g of
           (obstacles, g1) \<Rightarrow> Inr ((obstacles, 2.5), g1))
      else
        (case predefined_obstacles env of
           None \<Rightarrow> Inl (KeyError (StrKey env))
         | Some obstacles \<Rightarrow>
             (case lengths dof_arg of
                None \<Rightarrow> Inl (KeyError (IntKey dof_arg))
              | Some link_length \<Rightarrow> Inr ((obstacles, link_length), g))))"

text \<open>
  The two seeding calls at the head of \<^verbatim>\<open>main\<close>, torch first: a seed that a library
  rejects ends the run there with the library's exception.
\<close>

definition seeded :: "'g library \<Rightarrow> int \<Rightarrow> 'g world \<Rightarrow> (error + unit) \<times> 'g world" where
  "seeded lib s w =
     (let w0 = w\<lparr>calls := calls w @ [Torch_manual_seed s]\<rparr> in
      if \<not> torch_seed_ok lib s then (Inl RuntimeError, w0)
      else
        (let w1 = w0\<lparr>calls := calls w0 @ [Np_random_seed s]\<rparr> in
         case np_seed lib s of
           None \<Rightarrow> (Inl ValueError, w1)
         | Some g \<Rightarrow> (Inr (), w1\<lparr>np_random := g\<rparr>)))"

text \<open>
  \<^verbatim>\<open>main\<close>: both generators are seeded, the scene is resolved, the robot is constructed
  and the generation routine is called with \<^verbatim>\<open>vis=True\<close>. An exception leaves the
  function where it is raised, with the effects up to there. The generator state of the
  resulting world is the state in which the generation routine is called.
\<close>

definition main :: "'g library \<Rightarrow> args \<Rightarrow> 'g world \<Rightarrow> (error + unit) \<times> 'g world" where
  "main lib a w =
     (case seeded lib (random_seed a) w of
        (Inl e, w1) \<Rightarrow> (Inl e, w1)
      | (Inr u, w1) \<Rightarrow>
          (case resolve_scene lib (env_name a) (dof a) (np_random w1) of
             Inl e \<Rightarrow> (Inl e, w1)
           | Inr ((obstacles, link_length), g) \<Rightarrow>
               (let robot = RevolutePlanarRobot link_length (width a) (dof a) in
                (Inr (),
                 \<lparr>np_random = g,
                  calls = calls w1 @
                    [Construct_robot robot,
                     Generate_data_planar_manipulators
                       \<lparr>gen_robot = robot, gen_folder = folder a, gen_obstacles = obstacles,
                        gen_label_type = label_type a, gen_num_class = num_class a,
                        gen_num_points = num_init_points a, gen_env_id = env_name a,
                        gen_vis = True\<rparr>]\<rparr>))))"

section \<open>The command line\<close>

text \<open>
  The options as they stand on the command line, each absent or given with a value of the
  option's type; an absent option takes its default. The parser rejects a value outside
  the choices of \<^verbatim>\<open>--env\<close>, \<^verbatim>\<open>--label-type\<close> and \<^verbatim>\<open>--dof\<close>. Any integer is a
  seed for the parser. The default width is the double nearest to 0.3, which is
  5404319552844595 / 2^54.
\<close>

record cli =
  opt_env :: "string option"
  opt_output_dir :: "string option"
  opt_label_type :: "string option"
  opt_num_classes :: "int option"
  opt_dof :: "int option"
  opt_num_init_points :: "int option"
  opt_width :: "real option"
  opt_random_seed :: "int option"

definition env_choices :: "string list" where
  "env_choices = [''1rect_1circle'', ''3circle'', ''1rect_1circle_7d'', ''2class_1'',
                  ''2class_2'', ''3circle_7d'', ''7d_narrow'', ''3d_halfnarrow'']"

definition label_choices :: "string list" where
  "label_choices = [''instance'', ''class'', ''binary'']"

definition dof_choices :: "int list" where
  "dof_choices = [2, 3, 7]"

definition chosen :: "'a list \<Rightarrow> 'a \<Rightarrow> 'a option \<Rightarrow> error + 'a" where
  "chosen choices dflt given =
     (case given of
        None \<Rightarrow> Inr dflt
      | Some v \<Rightarrow> if v \<in> set choices then Inr v else Inl (SystemExit 2))"

definition parse_args :: "cli \<Rightarrow> error + args" where
  "parse_args c =
     (case chosen env_choices ''3d_halfnarrow'' (opt_env c) of
        Inl e \<Rightarrow> Inl e
      | Inr e \<Rightarrow>
     (case chosen label_choices ''binary'' (opt_label_type c) of
        Inl e \<Rightarrow> Inl e
      | Inr l \<Rightarrow>
     (case chosen dof_choices 3 (opt_dof c) of
        Inl e \<Rightarrow> Inl e
      | Inr d \<Rightarrow>
          Inr \<lparr>env_name = e,
               folder = case_option ''data/landscape'' id (opt_output_dir c),
               label_type = l,
               num_class = case_option 2 id (opt_num_classes c),
               dof = d,
               num_init_points = case_option 8000 id (opt_num_init_points c),
               random_seed = case_option 2021 id (opt_random_seed c),
               width = case_option (5404319552844595 / 18014398509481984) id (opt_width c)\<rparr>)))"

definition script :: "'g library \<Rightarrow> cli \<Rightarrow> 'g world \<Rightarrow> (error + unit) \<times> 'g world" where
  "script lib c w =
     (case parse_args c of
        Inl e \<Rightarrow> (Inl e, w)
      | Inr a \<Rightarrow> main lib a w)"

section \<open>Outcomes of a run\<close>

text \<open>
  \<open>completes\<close>: the run returns, and the calls it made are, in this order, the two
  seedings, the construction of the robot with the given link length and the call of the
  generation routine, whose arguments are the robot, the given obstacles and the
  remaining parameters of \<^verbatim>\<open>main\<close>. \<open>raises\<close>: the run ends with the given exception
  after the two seeding calls, no other call having been made.
\<close>

definition completes :: "'g library \<Rightarrow> args \<Rightarrow> 'g world \<Rightarrow> real \<Rightarrow> obstacle list \<Rightarrow> bool" where
  "completes lib a w link_length obstacles \<longleftrightarrow>
     fst (main lib a w) = Inr () \<and>
     calls (snd (main lib a w)) =
       calls w @
         [Torch_manual_seed (random_seed a),
          Np_random_seed (random_seed a),
          Construct_robot (RevolutePlanarRobot link_length (width a) (dof a)),
          Generate_data_planar_manipulators
            \<lparr>gen_robot = RevolutePlanarRobot link_length (width a) (dof a),
             gen_folder = folder a, gen_obstacles = obstacles,
             gen_label_type = label_type a, gen_num_class = num_class a,
             gen_num_points = num_init_points a, gen_env_id = env_name a,
             gen_vis = True\<rparr>]"

definition raises :: "'g library \<Rightarrow> args \<Rightarrow> 'g world \<Rightarrow> error \<Rightarrow> bool" where
  "raises lib a w e \<longleftrightarrow>
     fst (main lib a w) = Inl e \<and>
     calls (snd (main lib a w)) =
       calls w @ [Torch_manual_seed (random_seed a), Np_random_seed (random_seed a)]"

section \<open>What is assumed of the libraries\<close>

text \<open>
  A seed is accepted when both seeding calls return. For torch these are the integers
  from \<open>-2^63\<close> to \<open>2^64 - 1\<close>, for numpy those from 0 to \<open>2^32 - 1\<close>; the theorems
  below that speak of a run beyond its seeding carry the acceptance as a hypothesis and
  do not depend on the two ranges.
\<close>

definition seed_accepted :: "'g library \<Rightarrow> int \<Rightarrow> bool" where
  "seed_accepted lib s \<longleftrightarrow> torch_seed_ok lib s \<and> np_seed lib s \<noteq> None"

text \<open>
  \<^verbatim>\<open>np.random.rand\<close> draws from the half-open interval from 0 to 1. Rounding to the
  nearest double is monotone and leaves the integers of magnitude at most 16 as they are;
  these are the only facts about double precision that the bounds below rest on.
\<close>

definition unit_draws :: "'g library \<Rightarrow> bool" where
  "unit_draws lib \<longleftrightarrow>
     (\<forall>g. case np_rand2 lib g of ((r0, r1), g') \<Rightarrow> 0 \<le> r0 \<and> r0 < 1 \<and> 0 \<le> r1 \<and> r1 < 1)"

definition rounding :: "'g library \<Rightarrow> bool" where
  "rounding lib \<longleftrightarrow>
     (\<forall>x y. x \<le> y \<longrightarrow> fl lib x \<le> fl lib y) \<and>
     (\<forall>k::int. \<bar>k\<bar> \<le> 16 \<longrightarrow> fl lib (of_int k) = of_int k)"

text \<open>
  A small library that meets these assumptions, on which the theorems are instantiated:
  the two seed ranges as above, a linear congruential step on 12 bits, each draw six of
  them, and arithmetic rounded to ten binary places. The arguments are the defaults of
  the script but for the scene and the number of joints.
\<close>

definition toy_library :: "nat library" where
  "toy_library =
     \<lparr>torch_seed_ok = (\<lambda>s. - (2 ^ 63) \<le> s \<and> s \<le> 2 ^ 64 - 1),
      np_seed = (\<lambda>s. if 0 \<le> s \<and> s < 2 ^ 32 then Some (nat s mod 4096) else None),
      np_rand2 = (\<lambda>g. ((real (g mod 64) / 64, real (g div 64 mod 64) / 64),
                         (g * 1229 + 1) mod 4096)),
      fl = (\<lambda>x. of_int (round (x * 1024)) / 1024)\<rparr>"

definition toy_args :: "string \<Rightarrow> int \<Rightarrow> args" where
  "toy_args e d =
     \<lparr>env_name = e, folder = ''data/landscape'', label_type = ''binary'', num_class = 2,
      dof = d, num_init_points = 8000, random_seed = 2021,
      width = 5404319552844595 / 18014398509481984\<rparr>"

definition toy_world :: "nat world" where
  "toy_world = \<lparr>np_random = 7, calls = []\<rparr>"

definition no_options :: cli where
  "no_options = \<lparr>opt_env = None, opt_output_dir = None, opt_label_type = None,
     opt_num_classes = None, opt_dof = None, opt_num_init_points = None, opt_width = None,
     opt_random_seed = None\<rparr>"

section \<open>Auxiliary facts\<close>

lemma toy_unit_draws: "unit_draws toy_library"
  by (simp add: unit_draws_def toy_library_def)

lemma toy_rounding: "rounding toy_library"
proof -
  have m: "\<And>x y::real. x \<le> y \<Longrightarrow>
      real_of_int (round (x * 1024)) / 1024 \<le> real_of_int (round (y * 1024)) / 1024"
    by (simp add: round_mono divide_right_mono)
  have f: "\<And>k::int. real_of_int (round (real_of_int k * 1024)) / 1024 = real_of_int k"
  proof -
    fix k :: int
    have "real_of_int k * 1024 = real_of_int (k * 1024)" by simp
    then have "round (real_of_int k * 1024) = k * 1024" by (metis round_of_int)
    then show "real_of_int (round (real_of_int k * 1024)) / 1024 = real_of_int k" by simp
  qed
  show ?thesis
    unfolding rounding_def toy_library_def library.simps
    using m f by blast
qed

lemma scaled_bounds:
  assumes R: "rounding lib" and r: "0 \<le> r" "r < 1"
    and ab: "a \<le> b" "\<bar>a\<bar> \<le> 16" "\<bar>b\<bar> \<le> 16" "b - a \<le> 16"
  shows "of_int a \<le> scaled lib r (of_int a) (of_int b) \<and>
         scaled lib r (of_int a) (of_int b) \<le> of_int b"
proof -
  from R have mon: "\<And>x y. x \<le> y \<Longrightarrow> fl lib x \<le> fl lib y"
    and fixed: "\<And>k::int. \<bar>k\<bar> \<le> 16 \<Longrightarrow> fl lib (of_int k) = of_int k"
    by (simp_all add: rounding_def)
  let ?d = "real_of_int (b - a)"
  have d: "fl lib (of_int b - of_int a) = ?d"
    using fixed [of "b - a"] ab by simp
  have d0: "0 \<le> ?d" using ab by simp
  have p: "0 \<le> r * ?d" "r * ?d \<le> ?d"
    using r d0 by (simp_all add: mult_left_le_one_le)
  have "fl lib 0 \<le> fl lib (r * ?d)" "fl lib (r * ?d) \<le> fl lib ?d"
    using p mon by blast+
  moreover have "fl lib 0 = 0" using fixed [of 0] by simp
  moreover have "fl lib ?d = ?d" using fixed [of "b - a"] ab by simp
  ultimately have q: "0 \<le> fl lib (r * ?d)" "fl lib (r * ?d) \<le> ?d" by simp_all
  have "fl lib (of_int a) \<le> fl lib (fl lib (r * ?d) + of_int a)"
    "fl lib (fl lib (r * ?d) + of_int a) \<le> fl lib (of_int b)"
    using q by (auto intro!: mon)
  moreover have "fl lib (of_int a) = of_int a" "fl lib (of_int b) = of_int b"
    using fixed ab by blast+
  ultimately show ?thesis
    by (simp add: scaled_def d)
qed



lemma seeded_accepted:
  assumes "torch_seed_ok lib s" and "np_seed lib s = Some g0"
  shows "seeded lib s w =
           (Inr (), \<lparr>np_random = g0, calls = calls w @ [Torch_manual_seed s, Np_random_seed s]\<rparr>)"
  using assms by (simp add: seeded_def Let_def)

lemma seeded_rejected:
  assumes "\<not> seed_accepted lib s"
  shows "fst (seeded lib s w) = Inl RuntimeError \<or> fst (seeded lib s w) = Inl ValueError"
  using assms by (auto simp: seeded_def seed_accepted_def Let_def)

lemma main_rejected:
  assumes "\<not> seed_accepted lib (random_seed a)"
  shows "fst (main lib a w) = Inl RuntimeError \<or> fst (main lib a w) = Inl ValueError"
proof -
  obtain r w1 where s: "seeded lib (random_seed a) w = (r, w1)" by (metis prod.exhaust)
  with seeded_rejected [OF assms, of w] have "r = Inl RuntimeError \<or> r = Inl ValueError"
    by simp
  with s show ?thesis by (auto simp: main_def)
qed

lemma main_completes:
  assumes "torch_seed_ok lib (random_seed a)" and "np_seed lib (random_seed a) = Some g0"
    and "resolve_scene lib (env_name a) (dof a) g0 = Inr ((obs, len), g)"
  shows "completes lib a w len obs"
  using assms(3)
  by (simp add: completes_def main_def seeded_accepted [OF assms(1,2)] Let_def)

lemma main_raises:
  assumes "torch_seed_ok lib (random_seed a)" and "np_seed lib (random_seed a) = Some g0"
    and "resolve_scene lib (env_name a) (dof a) g0 = Inl e"
  shows "raises lib a w e"
  using assms(3)
  by (simp add: raises_def main_def seeded_accepted [OF assms(1,2)])

lemma completes_unique:
  "completes lib a w len obs \<Longrightarrow> completes lib a w len' obs' \<Longrightarrow> len' = len \<and> obs' = obs"
  by (simp add: completes_def)

lemma sample_rects_grows:
  "\<exists>new. fst (sample_rects lib lb ub n obs g) = obs @ new \<and> length new = n \<and>
     (\<forall>ob \<in> set new. \<exists>g'. case np_rand2 lib g' of
         ((r0, r1), g'') \<Rightarrow>
           ob = Obstacle ''rect'' (scaled lib r0 (fst lb) (fst ub), scaled lib r1 (snd lb) (snd ub))
                  (Extents 1 1) None)"
proof (induction n arbitrary: obs g)
  case 0
  show ?case by simp
next
  case (Suc n)
  obtain r0 r1 g1 where d: "np_rand2 lib g = ((r0, r1), g1)"
    by (metis prod.exhaust)
  let ?ob = "Obstacle ''rect'' (scaled lib r0 (fst lb) (fst ub), scaled lib r1 (snd lb) (snd ub))
               (Extents 1 1) None"
  from Suc.IH [of "obs @ [?ob]" g1]
  obtain new where n: "fst (sample_rects lib lb ub n (obs @ [?ob]) g1) = (obs @ [?ob]) @ new"
      "length new = n"
      "\<forall>ob \<in> set new. \<exists>g'. case np_rand2 lib g' of
         ((r0, r1), g'') \<Rightarrow>
           ob = Obstacle ''rect'' (scaled lib r0 (fst lb) (fst ub), scaled lib r1 (snd lb) (snd ub))
                  (Extents 1 1) None"
    by blast
  have h: "\<exists>g'. case np_rand2 lib g' of
         ((r0, r1), g'') \<Rightarrow>
           ?ob = Obstacle ''rect'' (scaled lib r0 (fst lb) (fst ub), scaled lib r1 (snd lb) (snd ub))
                  (Extents 1 1) None"
    by (rule exI [of _ g]) (simp add: d)
  show ?case
    apply (rule exI [of _ "?ob # new"])
    using n h by (simp add: d)
qed


lemma sample_rects_region:
  assumes U: "unit_draws lib" and R: "rounding lib"
    and x: "a0 \<le> b0" "\<bar>a0\<bar> \<le> 16" "\<bar>b0\<bar> \<le> 16" "b0 - a0 \<le> 16"
    and y: "a1 \<le> b1" "\<bar>a1\<bar> \<le> 16" "\<bar>b1\<bar> \<le> 16" "b1 - a1 \<le> 16"
  shows "\<exists>new. fst (sample_rects lib (of_int a0, of_int a1) (of_int b0, of_int b1) n obs g)
                  = obs @ new \<and> length new = n \<and>
           (\<forall>ob \<in> set new.
              kind ob = ''rect'' \<and> extent ob = Extents 1 1 \<and> class_tag ob = None \<and>
              of_int a0 \<le> fst (position ob) \<and> fst (position ob) \<le> of_int b0 \<and>
              of_int a1 \<le> snd (position ob) \<and> snd (position ob) \<le> of_int b1)"
proof -
  let ?lb = "(real_of_int a0, real_of_int a1)" and ?ub = "(real_of_int b0, real_of_int b1)"
  obtain new where n: "fst (sample_rects lib ?lb ?ub n obs g) = obs @ new" "length new = n"
    and each: "\<forall>ob \<in> set new. \<exists>g'. case np_rand2 lib g' of
         ((r0, r1), g'') \<Rightarrow>
           ob = Obstacle ''rect''
                  (scaled lib r0 (fst ?lb) (fst ?ub), scaled lib r1 (snd ?lb) (snd ?ub))
                  (Extents 1 1) None"
    using sample_rects_grows [of lib ?lb ?ub n obs g] by blast
  have "kind ob = ''rect'' \<and> extent ob = Extents 1 1 \<and> class_tag ob = None \<and>
        of_int a0 \<le> fst (position ob) \<and> fst (position ob) \<le> of_int b0 \<and>
        of_int a1 \<le> snd (position ob) \<and> snd (position ob) \<le> of_int b1"
    if "ob \<in> set new" for ob
  proof -
    from each that obtain g' r0 r1 g'' where d: "np_rand2 lib g' = ((r0, r1), g'')"
      and ob: "ob = Obstacle ''rect''
                  (scaled lib r0 (of_int a0) (of_int b0), scaled lib r1 (of_int a1) (of_int b1))
                  (Extents 1 1) None"
      by (fastforce split: prod.splits)
    from U d have r: "0 \<le> r0" "r0 < 1" "0 \<le> r1" "r1 < 1"
      by (auto simp: unit_draws_def split: prod.splits)
    show ?thesis
      using scaled_bounds [OF R r(1,2) x] scaled_bounds [OF R r(3,4) y]
      by (simp add: ob)
  qed
  with n show ?thesis by blast
qed

lemma resolve_7d_narrow:
  "resolve_scene lib ''7d_narrow'' d g =
     Inr ((fst (sample_rects lib (-8, -8) (8, -1) 150
                  (fst (sample_rects lib (-8, 1) (8, 8) 150 [] g))
                  (snd (sample_rects lib (-8, 1) (8, 8) 150 [] g))), 1),
          snd (sample_rects lib (-8, -8) (8, -1) 150
                  (fst (sample_rects lib (-8, 1) (8, 8) 150 [] g))
                  (snd (sample_rects lib (-8, 1) (8, 8) 150 [] g))))"
  by (simp add: resolve_scene_def split: prod.splits)

lemma resolve_3d_halfnarrow:
  "resolve_scene lib ''3d_halfnarrow'' d g =
     Inr ((fst (sample_rects lib (-8, 1) (8, 8) 150 [] g), 2.5),
          snd (sample_rects lib (-8, 1) (8, 8) 150 [] g))"
  by (simp add: resolve_scene_def split: prod.splits)

lemma dom_predefined_obstacles:
  "dom predefined_obstacles =
     {''1rect_1circle'', ''3circle'', ''1rect_1circle_7d'', ''2class_1'', ''2class_2'',
      ''3circle_7d''}"
  unfolding predefined_obstacles_def dom_map_of_conv_image_fst by simp

lemma dom_lengths: "dom lengths = {2, 3, 7}"
  unfolding lengths_def dom_map_of_conv_image_fst by simp

lemma resolve_catalog:
  assumes "predefined_obstacles env = Some obs"
  shows "resolve_scene lib env d g =
           (case lengths d of None \<Rightarrow> Inl (KeyError (IntKey d))
            | Some len \<Rightarrow> Inr ((obs, len), g))"
proof -
  from assms have "env \<in> dom predefined_obstacles" by blast
  then have "env \<noteq> ''7d_narrow''" "env \<noteq> ''3d_halfnarrow''"
    unfolding dom_predefined_obstacles by auto
  with assms show ?thesis by (simp add: resolve_scene_def)
qed

lemma resolve_unknown:
  assumes "env \<noteq> ''7d_narrow''" "env \<noteq> ''3d_halfnarrow''" "predefined_obstacles env = None"
  shows "resolve_scene lib env d g = Inl (KeyError (StrKey env))"
  using assms by (simp add: resolve_scene_def)

lemma lengths_values: "lengths 2 = Some 3.5" "lengths 3 = Some 2" "lengths 7 = Some 1"
  by (simp_all add: lengths_def)

lemma lengths_none: "d \<notin> {2, 3, 7} \<Longrightarrow> lengths d = None"
  using dom_lengths by blast

lemma resolve_random_dof:
  assumes "env = ''7d_narrow'' \<or> env = ''3d_halfnarrow''"
  shows "resolve_scene lib env d g = resolve_scene lib env d' g"
  using assms by (auto simp: resolve_7d_narrow resolve_3d_halfnarrow)

lemma resolve_random:
  assumes "env = ''7d_narrow'' \<or> env = ''3d_halfnarrow''"
  shows "\<exists>obs g'. resolve_scene lib env d g = Inr ((obs, if env = ''7d_narrow'' then 1 else 2.5), g')"
  using assms by (auto simp: resolve_7d_narrow resolve_3d_halfnarrow)

lemma random_completes:
  assumes "env_name a = ''7d_narrow'' \<or> env_name a = ''3d_halfnarrow''"
    and "torch_seed_ok lib (random_seed a)" and "np_seed lib (random_seed a) = Some g0"
  shows "\<exists>obs. completes lib a w (if env_name a = ''7d_narrow'' then 1 else 2.5) obs \<and>
           (\<exists>g. resolve_scene lib (env_name a) d g0
                  = Inr ((obs, if env_name a = ''7d_narrow'' then 1 else 2.5), g))"
proof -
  let ?len = "if env_name a = ''7d_narrow'' then 1 else 2.5 :: real"
  from resolve_random [OF assms(1), of lib "dof a" g0] obtain obs g where
    r: "resolve_scene lib (env_name a) (dof a) g0 = Inr ((obs, ?len), g)"
    by blast
  then have "resolve_scene lib (env_name a) d g0 = Inr ((obs, ?len), g)"
    using resolve_random_dof [OF assms(1), of lib d g0 "dof a"] by simp
  moreover have "completes lib a w ?len obs"
    using main_completes [OF assms(2,3) r] .
  ultimately show ?thesis by blast
qed

lemma catalog_completes:
  assumes "torch_seed_ok lib (random_seed a)" and "np_seed lib (random_seed a) = Some g0"
    and "predefined_obstacles (env_name a) = Some obs" and "lengths (dof a) = Some len"
  shows "completes lib a w len obs"
  by (rule main_completes [OF assms(1,2), where g = g0])
     (simp add: resolve_catalog [OF assms(3)] assms(4))

lemma catalog_raises:
  assumes "torch_seed_ok lib (random_seed a)" and "np_seed lib (random_seed a) = Some g0"
    and "predefined_obstacles (env_name a) = Some obs" and "lengths (dof a) = None"
  shows "raises lib a w (KeyError (IntKey (dof a)))"
  by (rule main_raises [OF assms(1,2)]) (simp add: resolve_catalog [OF assms(3)] assms(4))

lemma completes_not_raises: "completes lib a w len obs \<Longrightarrow> \<not> raises lib a w e"
  by (simp add: completes_def raises_def)

lemma resolved_no_key_error:
  assumes "\<And>g. \<exists>obs len g'. resolve_scene lib (env_name a) (dof a) g = Inr ((obs, len), g')"
  shows "fst (main lib a w) \<noteq> Inl (KeyError k) \<and>
         (seed_accepted lib (random_seed a) \<longrightarrow> (\<exists>len obs. completes lib a w len obs))"
proof (cases "seed_accepted lib (random_seed a)")
  case True
  then obtain g0 where s: "torch_seed_ok lib (random_seed a)"
      "np_seed lib (random_seed a) = Some g0"
    by (auto simp: seed_accepted_def)
  from assms [of g0] obtain obs len g' where
    "resolve_scene lib (env_name a) (dof a) g0 = Inr ((obs, len), g')" by blast
  from main_completes [OF s this, of w] have c: "completes lib a w len obs" .
  then have "fst (main lib a w) = Inr ()" by (simp add: completes_def)
  with c show ?thesis by auto
next
  case False
  from main_rejected [OF this, of w] False show ?thesis by auto
qed

lemma parse_args_choices:
  assumes "parse_args c = Inr a"
  shows "env_name a \<in> set env_choices \<and> label_type a \<in> set label_choices \<and>
         dof a \<in> set dof_choices"
proof -
  have d: "v \<in> set xs" if "chosen xs x given = Inr v" "x \<in> set xs"
    for xs :: "'a list" and x v given
    using that by (auto simp: chosen_def split: option.splits if_splits)
  from assms obtain e l dd where
    "chosen env_choices ''3d_halfnarrow'' (opt_env c) = Inr e"
    "chosen label_choices ''binary'' (opt_label_type c) = Inr l"
    "chosen dof_choices 3 (opt_dof c) = Inr dd"
    "env_name a = e" "label_type a = l" "dof a = dd"
    by (auto simp: parse_args_def split: sum.splits)
  moreover have "''3d_halfnarrow'' \<in> set env_choices" "''binary'' \<in> set label_choices"
    "3 \<in> set dof_choices"
    by (simp_all add: env_choices_def label_choices_def dof_choices_def)
  ultimately show ?thesis using d by metis
qed

lemma choices_resolve:
  assumes "env \<in> set env_choices" and "d \<in> set dof_choices"
  shows "\<exists>obs len g'. resolve_scene lib env d g = Inr ((obs, len), g')"
proof (cases "env = ''7d_narrow'' \<or> env = ''3d_halfnarrow''")
  case True
  from resolve_random [OF this, of lib d g] show ?thesis by blast
next
  case False
  with assms(1) have "env \<in> dom predefined_obstacles"
    unfolding dom_predefined_obstacles by (auto simp: env_choices_def)
  then obtain obs where o: "predefined_obstacles env = Some obs" by blast
  from assms(2) have "d \<in> dom lengths"
    unfolding dom_lengths by (simp add: dof_choices_def)
  then obtain len where "lengths d = Some len" by blast
  with o show ?thesis by (simp add: resolve_catalog)
qed

lemma toy_seed_2021:
  "torch_seed_ok toy_library 2021" "np_seed toy_library 2021 = Some 2021"
  "seed_accepted toy_library 2021"
  by (simp_all add: toy_library_def seed_accepted_def)

section \<open>The scene table\<close>

text \<open>
  Claim C1. The scene table has exactly the six fixed identifiers, and the lookup of each
  returns the obstacle sequence documented for it, in that order: for \<^verbatim>\<open>'3circle'\<close>
  three circles with centres (0, 4.5), (-2, -3), (-2, 2) and radii 1, 2, 1.5;
  for \<^verbatim>\<open>'2class_1'\<close> five obstacles tagged 0 or 1, for \<^verbatim>\<open>'2class_2'\<close> two
  rectangles tagged 1 and 0, for \<^verbatim>\<open>'3circle_7d'\<close> three untagged circles.
\<close>

theorem catalog_entries:
  "dom predefined_obstacles =
     {''1rect_1circle'', ''3circle'', ''1rect_1circle_7d'', ''2class_1'', ''2class_2'',
      ''3circle_7d''} \<and>
   predefined_obstacles ''1rect_1circle'' =
     Some [Obstacle ''rect'' (4, 3) (Extents 2 2) None,
           Obstacle ''circle'' (-4, -3) (Scalar 1) None] \<and>
   predefined_obstacles ''3circle'' =
     Some [Obstacle ''circle'' (0, 9 / 2) (Scalar 1) None,
           Obstacle ''circle'' (-2, -3) (Scalar 2) None,
           Obstacle ''circle'' (-2, 2) (Scalar (3 / 2)) None] \<and>
   predefined_obstacles ''1rect_1circle_7d'' =
     Some [Obstacle ''circle'' (-2, 3) (Scalar 1) None,
           Obstacle ''rect'' (3, 2) (Extents 2 2) None] \<and>
   predefined_obstacles ''2class_1'' =
     Some [Obstacle ''rect'' (5, 0) (Extents 2 2) (Some 0),
           Obstacle ''circle'' (-3, 6) (Scalar 1) (Some 1),
           Obstacle ''rect'' (-5, 2) (Extents 2 (3 / 2)) (Some 1),
           Obstacle ''circle'' (-5, -2) (Scalar (3 / 2)) (Some 1),
           Obstacle ''circle'' (-3, -6) (Scalar 1) (Some 1)] \<and>
   predefined_obstacles ''2class_2'' =
     Some [Obstacle ''rect'' (0, 3) (Extents 16 (1 / 2)) (Some 1),
           Obstacle ''rect'' (0, -3) (Extents 16 (1 / 2)) (Some 0)] \<and>
   predefined_obstacles ''3circle_7d'' =
     Some [Obstacle ''circle'' (-2, 2) (Scalar 1) None,
           Obstacle ''circle'' (-3, 3) (Scalar 1) None,
           Obstacle ''circle'' (-6, -3) (Scalar 1) None]"
  unfolding dom_predefined_obstacles
  by (simp add: predefined_obstacles_def)

section \<open>The field of the narrow passage\<close>

text \<open>
  Claim C2. For the scene \<^verbatim>\<open>'7d_narrow'\<close>, with a seed that the libraries accept, the
  run passes exactly 300 obstacles to the
  generation routine, all rectangles of size (1, 1): first 150 with centre in
  \<open>-8 \<le> x \<le> 8\<close>, \<open>1 \<le> y \<le> 8\<close>, then 150 with centre in \<open>-8 \<le> x \<le> 8\<close>,
  \<open>-8 \<le> y \<le> -1\<close>; no centre has \<open>-1 < y < 1\<close>.
\<close>

theorem narrow_passage_field:
  assumes "unit_draws lib" and "rounding lib" and "seed_accepted lib (random_seed a)"
    and "env_name a = ''7d_narrow''"
  shows "\<exists>upper lower.
           completes lib a w 1 (upper @ lower) \<and>
           length (upper @ lower) = 300 \<and> length upper = 150 \<and> length lower = 150 \<and>
           (\<forall>ob \<in> set upper.
              kind ob = ''rect'' \<and> extent ob = Extents 1 1 \<and>
              -8 \<le> fst (position ob) \<and> fst (position ob) \<le> 8 \<and>
              1 \<le> snd (position ob) \<and> snd (position ob) \<le> 8) \<and>
           (\<forall>ob \<in> set lower.
              kind ob = ''rect'' \<and> extent ob = Extents 1 1 \<and>
              -8 \<le> fst (position ob) \<and> fst (position ob) \<le> 8 \<and>
              -8 \<le> snd (position ob) \<and> snd (position ob) \<le> -1) \<and>
           (\<forall>ob \<in> set (upper @ lower).
              \<not> (-1 < snd (position ob) \<and> snd (position ob) < 1))"
proof -
  from assms(3) obtain g0 where s: "torch_seed_ok lib (random_seed a)"
      "np_seed lib (random_seed a) = Some g0"
    by (auto simp: seed_accepted_def)
  obtain upper where u: "fst (sample_rects lib (-8, 1) (8, 8) 150 [] g0) = upper"
      "length upper = 150"
      "\<forall>ob \<in> set upper.
         kind ob = ''rect'' \<and> extent ob = Extents 1 1 \<and> class_tag ob = None \<and>
         -8 \<le> fst (position ob) \<and> fst (position ob) \<le> 8 \<and>
         1 \<le> snd (position ob) \<and> snd (position ob) \<le> 8"
    using sample_rects_region [OF assms(1,2), of "-8" 8 1 8 150 "[]" g0] by auto
  let ?g1 = "snd (sample_rects lib (-8, 1) (8, 8) 150 [] g0)"
  obtain lower where l: "fst (sample_rects lib (-8, -8) (8, -1) 150 upper ?g1) = upper @ lower"
      "length lower = 150"
      "\<forall>ob \<in> set lower.
         kind ob = ''rect'' \<and> extent ob = Extents 1 1 \<and> class_tag ob = None \<and>
         -8 \<le> fst (position ob) \<and> fst (position ob) \<le> 8 \<and>
         -8 \<le> snd (position ob) \<and> snd (position ob) \<le> -1"
    using sample_rects_region [OF assms(1,2), of "-8" 8 "-8" "-1" 150 upper ?g1] by auto
  have "completes lib a w 1 (upper @ lower)"
    by (rule main_completes [OF s]) (simp add: assms(4) resolve_7d_narrow u(1) l(1))
  moreover have "\<forall>ob \<in> set (upper @ lower).
      \<not> (-1 < snd (position ob) \<and> snd (position ob) < 1)"
    using u(3) l(3) by fastforce
  ultimately show ?thesis
    using u(2,3) l(2,3) by (intro exI [of _ upper] exI [of _ lower]) simp
qed

text \<open>At the small generator, for the default arguments with 7 joints.\<close>

theorem narrow_passage_field_witness:
  "unit_draws toy_library \<and> rounding toy_library \<and>
   seed_accepted toy_library (random_seed (toy_args ''7d_narrow'' 7)) \<and>
   env_name (toy_args ''7d_narrow'' 7) = ''7d_narrow'' \<and>
   (\<exists>upper lower.
      completes toy_library (toy_args ''7d_narrow'' 7) toy_world 1 (upper @ lower) \<and>
      length (upper @ lower) = 300 \<and> length upper = 150 \<and> length lower = 150 \<and>
      (\<forall>ob \<in> set upper.
         kind ob = ''rect'' \<and> extent ob = Extents 1 1 \<and>
         -8 \<le> fst (position ob) \<and> fst (position ob) \<le> 8 \<and>
         1 \<le> snd (position ob) \<and> snd (position ob) \<le> 8) \<and>
      (\<forall>ob \<in> set lower.
         kind ob = ''rect'' \<and> extent ob = Extents 1 1 \<and>
         -8 \<le> fst (position ob) \<and> fst (position ob) \<le> 8 \<and>
         -8 \<le> snd (position ob) \<and> snd (position ob) \<le> -1) \<and>
      (\<forall>ob \<in> set (upper @ lower).
         \<not> (-1 < snd (position ob) \<and> snd (position ob) < 1)))"
proof -
  have e: "env_name (toy_args ''7d_narrow'' 7) = ''7d_narrow''"
    and s: "seed_accepted toy_library (random_seed (toy_args ''7d_narrow'' 7))"
    by (simp_all add: toy_args_def toy_seed_2021)
  show ?thesis
    using narrow_passage_field [OF toy_unit_draws toy_rounding s e, of toy_world]
      toy_unit_draws toy_rounding s e
    by blast
qed

section \<open>The field is a function of the seed\<close>

text \<open>
  Claim C3. Two runs on one of the random scenes with the same accepted seed pass the same
  obstacle list to the generation routine, whatever the state of the generator before
  each run and whatever the other arguments: both generators are seeded with the
  caller's seed before the first draw.
\<close>

theorem same_seed_same_field:
  assumes "env_name a1 = ''7d_narrow'' \<or> env_name a1 = ''3d_halfnarrow''"
    and "env_name a2 = env_name a1" and "random_seed a2 = random_seed a1"
    and "seed_accepted lib (random_seed a1)"
  shows "\<exists>len obs. completes lib a1 w1 len obs \<and> completes lib a2 w2 len obs"
proof -
  let ?len = "if env_name a1 = ''7d_narrow'' then 1 else 2.5 :: real"
  from assms(4) obtain g0 where s: "torch_seed_ok lib (random_seed a1)"
      "np_seed lib (random_seed a1) = Some g0"
    by (auto simp: seed_accepted_def)
  from random_completes [OF assms(1) s, of w1 "dof a2"]
  obtain obs g where c1: "completes lib a1 w1 ?len obs"
    and r: "resolve_scene lib (env_name a1) (dof a2) g0 = Inr ((obs, ?len), g)"
    by blast
  from s have s2: "torch_seed_ok lib (random_seed a2)" "np_seed lib (random_seed a2) = Some g0"
    by (simp_all add: assms(3))
  from r have "resolve_scene lib (env_name a2) (dof a2) g0 = Inr ((obs, ?len), g)"
    by (simp add: assms(2))
  from main_completes [OF s2 this, of w2] c1 show ?thesis by blast
qed

text \<open>
  Two runs that differ in the number of joints, the output folder, the state of the
  generator and the calls made before.
\<close>

theorem same_seed_same_field_witness:
  "(env_name (toy_args ''7d_narrow'' 7) = ''7d_narrow'' \<or>
    env_name (toy_args ''7d_narrow'' 7) = ''3d_halfnarrow'') \<and>
   env_name ((toy_args ''7d_narrow'' 3)\<lparr>folder := ''out''\<rparr>) = env_name (toy_args ''7d_narrow'' 7) \<and>
   random_seed ((toy_args ''7d_narrow'' 3)\<lparr>folder := ''out''\<rparr>)
     = random_seed (toy_args ''7d_narrow'' 7) \<and>
   seed_accepted toy_library (random_seed (toy_args ''7d_narrow'' 7)) \<and>
   (\<exists>len obs.
      completes toy_library (toy_args ''7d_narrow'' 7) toy_world len obs \<and>
      completes toy_library ((toy_args ''7d_narrow'' 3)\<lparr>folder := ''out''\<rparr>)
        \<lparr>np_random = 99, calls = [Np_random_seed 5]\<rparr> len obs)"
proof -
  have h: "env_name (toy_args ''7d_narrow'' 7) = ''7d_narrow'' \<or>
      env_name (toy_args ''7d_narrow'' 7) = ''3d_halfnarrow''"
    "env_name ((toy_args ''7d_narrow'' 3)\<lparr>folder := ''out''\<rparr>) = env_name (toy_args ''7d_narrow'' 7)"
    "random_seed ((toy_args ''7d_narrow'' 3)\<lparr>folder := ''out''\<rparr>)
       = random_seed (toy_args ''7d_narrow'' 7)"
    "seed_accepted toy_library (random_seed (toy_args ''7d_narrow'' 7))"
    by (simp_all add: toy_args_def toy_seed_2021)
  show ?thesis
    using same_seed_same_field
        [OF h, of toy_world "\<lparr>np_random = 99, calls = [Np_random_seed 5]\<rparr>"] h
    by blast
qed

section \<open>The link length\<close>

text \<open>
  Claim C4. With a seed that the libraries accept: for a scene of the table the robot is
  constructed with the link length that
  the table of lengths gives for the number of joints: 3.5 for 2, 2 for 3, 1 for 7. For
  \<^verbatim>\<open>'7d_narrow'\<close> it is 1 and for \<^verbatim>\<open>'3d_halfnarrow'\<close> it is 2.5, whatever the
  number of joints.
\<close>

theorem link_length_resolution:
  assumes "seed_accepted lib (random_seed a)"
  shows "(predefined_obstacles (env_name a) = Some obs \<longrightarrow>
            (dof a = 2 \<longrightarrow> completes lib a w 3.5 obs) \<and>
            (dof a = 3 \<longrightarrow> completes lib a w 2 obs) \<and>
            (dof a = 7 \<longrightarrow> completes lib a w 1 obs)) \<and>
         (env_name a = ''7d_narrow'' \<longrightarrow> (\<exists>obs'. completes lib a w 1 obs')) \<and>
         (env_name a = ''3d_halfnarrow'' \<longrightarrow> (\<exists>obs'. completes lib a w 2.5 obs'))"
proof -
  from assms obtain g0 where s: "torch_seed_ok lib (random_seed a)"
      "np_seed lib (random_seed a) = Some g0"
    by (auto simp: seed_accepted_def)
  show ?thesis
  proof (intro conjI impI)
    assume "predefined_obstacles (env_name a) = Some obs" "dof a = 2"
    then show "completes lib a w 3.5 obs"
      using catalog_completes [OF s, of obs "3.5" w] by (simp add: lengths_values)
  next
    assume "predefined_obstacles (env_name a) = Some obs" "dof a = 3"
    then show "completes lib a w 2 obs"
      using catalog_completes [OF s, of obs 2 w] by (simp add: lengths_values)
  next
    assume "predefined_obstacles (env_name a) = Some obs" "dof a = 7"
    then show "completes lib a w 1 obs"
      using catalog_completes [OF s, of obs 1 w] by (simp add: lengths_values)
  next
    assume e: "env_name a = ''7d_narrow''"
    then show "\<exists>obs'. completes lib a w 1 obs'"
      using random_completes [OF _ s, of w "dof a"] by auto
  next
    assume e: "env_name a = ''3d_halfnarrow''"
    then show "\<exists>obs'. completes lib a w 2.5 obs'"
      using random_completes [OF _ s, of w "dof a"] by auto
  qed
qed

text \<open>
  One scene of the table for each number of joints, and the two random scenes with a
  number of joints that the table would map to another length.
\<close>

theorem link_length_resolution_witness:
  "seed_accepted toy_library 2021 \<and>
   completes toy_library (toy_args ''3circle'' 2) toy_world 3.5
     [Obstacle ''circle'' (0, 4.5) (Scalar 1) None,
      Obstacle ''circle'' (-2, -3) (Scalar 2) None,
      Obstacle ''circle'' (-2, 2) (Scalar 1.5) None] \<and>
   completes toy_library (toy_args ''2class_2'' 3) toy_world 2
     [Obstacle ''rect'' (0, 3) (Extents 16 0.5) (Some 1),
      Obstacle ''rect'' (0, -3) (Extents 16 0.5) (Some 0)] \<and>
   completes toy_library (toy_args ''1rect_1circle_7d'' 7) toy_world 1
     [Obstacle ''circle'' (-2, 3) (Scalar 1) None,
      Obstacle ''rect'' (3, 2) (Extents 2 2) None] \<and>
   (\<exists>obs. completes toy_library (toy_args ''7d_narrow'' 2) toy_world 1 obs) \<and>
   (\<exists>obs. completes toy_library (toy_args ''3d_halfnarrow'' 7) toy_world 2.5 obs)"
proof -
  have t: "predefined_obstacles (env_name (toy_args ''3circle'' 2)) =
      Some [Obstacle ''circle'' (0, 4.5) (Scalar 1) None,
            Obstacle ''circle'' (-2, -3) (Scalar 2) None,
            Obstacle ''circle'' (-2, 2) (Scalar 1.5) None]"
    "predefined_obstacles (env_name (toy_args ''2class_2'' 3)) =
      Some [Obstacle ''rect'' (0, 3) (Extents 16 0.5) (Some 1),
            Obstacle ''rect'' (0, -3) (Extents 16 0.5) (Some 0)]"
    "predefined_obstacles (env_name (toy_args ''1rect_1circle_7d'' 7)) =
      Some [Obstacle ''circle'' (-2, 3) (Scalar 1) None,
            Obstacle ''rect'' (3, 2) (Extents 2 2) None]"
    by (simp_all add: toy_args_def predefined_obstacles_def)
  have d: "dof (toy_args ''3circle'' 2) = 2" "dof (toy_args ''2class_2'' 3) = 3"
    "dof (toy_args ''1rect_1circle_7d'' 7) = 7"
    "env_name (toy_args ''7d_narrow'' 2) = ''7d_narrow''"
    "env_name (toy_args ''3d_halfnarrow'' 7) = ''3d_halfnarrow''"
    by (simp_all add: toy_args_def)
  have s: "seed_accepted toy_library (random_seed (toy_args e n))" for e n
    by (simp add: toy_args_def toy_seed_2021)
  have "completes toy_library (toy_args ''3circle'' 2) toy_world 3.5
     [Obstacle ''circle'' (0, 4.5) (Scalar 1) None,
      Obstacle ''circle'' (-2, -3) (Scalar 2) None,
      Obstacle ''circle'' (-2, 2) (Scalar 1.5) None]"
    using link_length_resolution [OF s [of "''3circle''" 2], where w = toy_world and obs =
        "[Obstacle ''circle'' (0, 4.5) (Scalar 1) None,
          Obstacle ''circle'' (-2, -3) (Scalar 2) None,
          Obstacle ''circle'' (-2, 2) (Scalar 1.5) None]"]
      t(1) d(1) by blast
  moreover have "completes toy_library (toy_args ''2class_2'' 3) toy_world 2
     [Obstacle ''rect'' (0, 3) (Extents 16 0.5) (Some 1),
      Obstacle ''rect'' (0, -3) (Extents 16 0.5) (Some 0)]"
    using link_length_resolution [OF s [of "''2class_2''" 3], where w = toy_world and obs =
        "[Obstacle ''rect'' (0, 3) (Extents 16 0.5) (Some 1),
          Obstacle ''rect'' (0, -3) (Extents 16 0.5) (Some 0)]"]
      t(2) d(2) by blast
  moreover have "completes toy_library (toy_args ''1rect_1circle_7d'' 7) toy_world 1
     [Obstacle ''circle'' (-2, 3) (Scalar 1) None,
      Obstacle ''rect'' (3, 2) (Extents 2 2) None]"
    using link_length_resolution [OF s [of "''1rect_1circle_7d''" 7], where w = toy_world
        and obs =
        "[Obstacle ''circle'' (-2, 3) (Scalar 1) None,
          Obstacle ''rect'' (3, 2) (Extents 2 2) None]"]
      t(3) d(3) by blast
  moreover have "\<exists>obs. completes toy_library (toy_args ''7d_narrow'' 2) toy_world 1 obs"
    using link_length_resolution [OF s [of "''7d_narrow''" 2], where w = toy_world and obs = "[]"]
      d(4) by blast
  moreover have "\<exists>obs. completes toy_library (toy_args ''3d_halfnarrow'' 7) toy_world 2.5 obs"
    using link_length_resolution
        [OF s [of "''3d_halfnarrow''" 7], where w = toy_world and obs = "[]"]
      d(5) by blast
  ultimately show ?thesis using toy_seed_2021(3) by blast
qed

section \<open>The field of the upper half\<close>

text \<open>
  Claim C5. For the scene \<^verbatim>\<open>'3d_halfnarrow'\<close>, with a seed that the libraries accept,
  the run passes exactly 150 obstacles to
  the generation routine, all rectangles of size (1, 1) with centre in \<open>-8 \<le> x \<le> 8\<close>,
  \<open>1 \<le> y \<le> 8\<close>; there is no lower field.
\<close>

theorem upper_half_field:
  assumes "unit_draws lib" and "rounding lib" and "seed_accepted lib (random_seed a)"
    and "env_name a = ''3d_halfnarrow''"
  shows "\<exists>obs.
           completes lib a w 2.5 obs \<and> length obs = 150 \<and>
           (\<forall>ob \<in> set obs.
              kind ob = ''rect'' \<and> extent ob = Extents 1 1 \<and>
              -8 \<le> fst (position ob) \<and> fst (position ob) \<le> 8 \<and>
              1 \<le> snd (position ob) \<and> snd (position ob) \<le> 8)"
proof -
  from assms(3) obtain g0 where s: "torch_seed_ok lib (random_seed a)"
      "np_seed lib (random_seed a) = Some g0"
    by (auto simp: seed_accepted_def)
  obtain obs where u: "fst (sample_rects lib (-8, 1) (8, 8) 150 [] g0) = obs"
      "length obs = 150"
      "\<forall>ob \<in> set obs.
         kind ob = ''rect'' \<and> extent ob = Extents 1 1 \<and> class_tag ob = None \<and>
         -8 \<le> fst (position ob) \<and> fst (position ob) \<le> 8 \<and>
         1 \<le> snd (position ob) \<and> snd (position ob) \<le> 8"
    using sample_rects_region [OF assms(1,2), of "-8" 8 1 8 150 "[]" g0] by auto
  have "completes lib a w 2.5 obs"
    by (rule main_completes [OF s]) (simp add: assms(4) resolve_3d_halfnarrow u(1))
  then show ?thesis
    using u(2,3) by (intro exI [of _ obs]) simp
qed

text \<open>At the small generator, for the default arguments.\<close>

theorem upper_half_field_witness:
  "unit_draws toy_library \<and> rounding toy_library \<and>
   seed_accepted toy_library (random_seed (toy_args ''3d_halfnarrow'' 3)) \<and>
   env_name (toy_args ''3d_halfnarrow'' 3) = ''3d_halfnarrow'' \<and>
   (\<exists>obs.
      completes toy_library (toy_args ''3d_halfnarrow'' 3) toy_world 2.5 obs \<and> length obs = 150 \<and>
      (\<forall>ob \<in> set obs.
         kind ob = ''rect'' \<and> extent ob = Extents 1 1 \<and>
         -8 \<le> fst (position ob) \<and> fst (position ob) \<le> 8 \<and>
         1 \<le> snd (position ob) \<and> snd (position ob) \<le> 8))"
proof -
  have e: "env_name (toy_args ''3d_halfnarrow'' 3) = ''3d_halfnarrow''"
    and s: "seed_accepted toy_library (random_seed (toy_args ''3d_halfnarrow'' 3))"
    by (simp_all add: toy_args_def toy_seed_2021)
  show ?thesis
    using upper_half_field [OF toy_unit_draws toy_rounding s e, of toy_world]
      toy_unit_draws toy_rounding s e
    by blast
qed

section \<open>A number of joints outside the table of lengths\<close>

text \<open>
  Claim C6. A scene of the table requested with a number of joints other than 2, 3 and 7,
  and a seed that the libraries accept, ends with the \<^verbatim>\<open>KeyError\<close> of the lookup in the table of lengths, whose key is that
  number; the robot has not been constructed and the generation routine has not been
  called, the two seedings being the only calls made.
\<close>

theorem unsupported_dof:
  assumes "seed_accepted lib (random_seed a)"
    and "env_name a \<in> dom predefined_obstacles" and "dof a \<notin> {2, 3, 7}"
  shows "raises lib a w (KeyError (IntKey (dof a)))"
proof -
  from assms(1) obtain g0 where s: "torch_seed_ok lib (random_seed a)"
      "np_seed lib (random_seed a) = Some g0"
    by (auto simp: seed_accepted_def)
  from assms(2) obtain obs where "predefined_obstacles (env_name a) = Some obs" by blast
  then show ?thesis
    using lengths_none [OF assms(3)] by (rule catalog_raises [OF s])
qed

text \<open>The scene \<^verbatim>\<open>'3circle'\<close> with 5 joints.\<close>

theorem unsupported_dof_witness:
  "seed_accepted toy_library (random_seed (toy_args ''3circle'' 5)) \<and>
   env_name (toy_args ''3circle'' 5) \<in> dom predefined_obstacles \<and>
   dof (toy_args ''3circle'' 5) \<notin> {2, 3, 7} \<and>
   fst (main toy_library (toy_args ''3circle'' 5) toy_world) = Inl (KeyError (IntKey 5)) \<and>
   calls (snd (main toy_library (toy_args ''3circle'' 5) toy_world))
     = [Torch_manual_seed 2021, Np_random_seed 2021]"
proof -
  have h: "seed_accepted toy_library (random_seed (toy_args ''3circle'' 5))"
    "env_name (toy_args ''3circle'' 5) \<in> dom predefined_obstacles"
    "dof (toy_args ''3circle'' 5) \<notin> {2, 3, 7}"
    by (simp_all add: toy_args_def dom_predefined_obstacles toy_seed_2021)
  show ?thesis
    using unsupported_dof [OF h, of toy_world] h
    by (simp add: raises_def toy_args_def toy_world_def)
qed

section \<open>An identifier outside the table\<close>

text \<open>
  Claim C7. With a seed that the libraries accept, an identifier that is not in the scene
  table and is neither \<^verbatim>\<open>'7d_narrow'\<close> nor \<^verbatim>\<open>'3d_halfnarrow'\<close> ends the run with the \<^verbatim>\<open>KeyError\<close> of the
  lookup in the scene table, whose key is the identifier; \<^verbatim>\<open>main\<close> does not catch it, so
  it is the outcome of the run.
\<close>

theorem unknown_scene:
  assumes "seed_accepted lib (random_seed a)"
    and "env_name a \<notin> dom predefined_obstacles"
    and "env_name a \<noteq> ''7d_narrow''" and "env_name a \<noteq> ''3d_halfnarrow''"
  shows "raises lib a w (KeyError (StrKey (env_name a)))"
proof -
  from assms(1) obtain g0 where s: "torch_seed_ok lib (random_seed a)"
      "np_seed lib (random_seed a) = Some g0"
    by (auto simp: seed_accepted_def)
  from assms(2) have "predefined_obstacles (env_name a) = None" by blast
  then have "resolve_scene lib (env_name a) (dof a) g0 = Inl (KeyError (StrKey (env_name a)))"
    using assms(3,4) by (simp add: resolve_unknown)
  then show ?thesis by (rule main_raises [OF s])
qed

text \<open>The identifier \<^verbatim>\<open>'nonexistent'\<close>.\<close>

theorem unknown_scene_witness:
  "seed_accepted toy_library (random_seed (toy_args ''nonexistent'' 3)) \<and>
   env_name (toy_args ''nonexistent'' 3) \<notin> dom predefined_obstacles \<and>
   env_name (toy_args ''nonexistent'' 3) \<noteq> ''7d_narrow'' \<and>
   env_name (toy_args ''nonexistent'' 3) \<noteq> ''3d_halfnarrow'' \<and>
   fst (main toy_library (toy_args ''nonexistent'' 3) toy_world)
     = Inl (KeyError (StrKey ''nonexistent'')) \<and>
   calls (snd (main toy_library (toy_args ''nonexistent'' 3) toy_world))
     = [Torch_manual_seed 2021, Np_random_seed 2021]"
proof -
  have h: "seed_accepted toy_library (random_seed (toy_args ''nonexistent'' 3))"
    "env_name (toy_args ''nonexistent'' 3) \<notin> dom predefined_obstacles"
    "env_name (toy_args ''nonexistent'' 3) \<noteq> ''7d_narrow''"
    "env_name (toy_args ''nonexistent'' 3) \<noteq> ''3d_halfnarrow''"
    by (simp_all add: toy_args_def dom_predefined_obstacles toy_seed_2021)
  show ?thesis
    using unknown_scene [OF h, of toy_world] h
    by (simp add: raises_def toy_args_def toy_world_def)
qed

section \<open>The obstacles reach the generation routine as resolved\<close>

text \<open>
  Claim C8. Once the seed is accepted, the generation routine is called with exactly the
  obstacle list that the scene resolved to, in the same order, whether the list comes
  from the table or from the sampling loops: the scene resolves to a list and a link
  length if and only if the run returns having constructed the robot with that length
  and called the generation routine with an argument record whose obstacle list is that
  list.
\<close>

theorem obstacles_passed_unchanged:
  assumes "torch_seed_ok lib (random_seed a)" and "np_seed lib (random_seed a) = Some g0"
  shows "(\<exists>g. resolve_scene lib (env_name a) (dof a) g0 = Inr ((obs, len), g)) \<longleftrightarrow>
         fst (main lib a w) = Inr () \<and>
         (\<exists>q. calls (snd (main lib a w)) =
                 calls w @
                   [Torch_manual_seed (random_seed a),
                    Np_random_seed (random_seed a),
                    Construct_robot (RevolutePlanarRobot len (width a) (dof a)),
                    Generate_data_planar_manipulators q] \<and>
               gen_obstacles q = obs)"
proof
  assume "\<exists>g. resolve_scene lib (env_name a) (dof a) g0 = Inr ((obs, len), g)"
  then obtain g where "resolve_scene lib (env_name a) (dof a) g0 = Inr ((obs, len), g)"
    by blast
  from main_completes [OF assms this, of w]
  show "fst (main lib a w) = Inr () \<and>
         (\<exists>q. calls (snd (main lib a w)) =
                 calls w @
                   [Torch_manual_seed (random_seed a),
                    Np_random_seed (random_seed a),
                    Construct_robot (RevolutePlanarRobot len (width a) (dof a)),
                    Generate_data_planar_manipulators q] \<and>
               gen_obstacles q = obs)"
    by (simp add: completes_def)
next
  assume c: "fst (main lib a w) = Inr () \<and>
         (\<exists>q. calls (snd (main lib a w)) =
                 calls w @
                   [Torch_manual_seed (random_seed a),
                    Np_random_seed (random_seed a),
                    Construct_robot (RevolutePlanarRobot len (width a) (dof a)),
                    Generate_data_planar_manipulators q] \<and>
               gen_obstacles q = obs)"
  show "\<exists>g. resolve_scene lib (env_name a) (dof a) g0 = Inr ((obs, len), g)"
  proof (cases "resolve_scene lib (env_name a) (dof a) g0")
    case (Inl e)
    from main_raises [OF assms this, of w] c show ?thesis by (simp add: raises_def)
  next
    case (Inr r)
    obtain obs' len' g' where r: "r = ((obs', len'), g')" by (metis prod.exhaust)
    from Inr r have "resolve_scene lib (env_name a) (dof a) g0 = Inr ((obs', len'), g')"
      by simp
    from main_completes [OF assms this, of w] c have "len' = len \<and> obs' = obs"
      by (auto simp: completes_def)
    with Inr r show ?thesis by simp
  qed
qed

text \<open>The five obstacles of \<^verbatim>\<open>'2class_1'\<close>, in the order of the table.\<close>

theorem obstacles_passed_unchanged_witness:
  "torch_seed_ok toy_library (random_seed (toy_args ''2class_1'' 3)) \<and>
   np_seed toy_library (random_seed (toy_args ''2class_1'' 3)) = Some 2021 \<and>
   resolve_scene toy_library ''2class_1'' 3 2021 =
     Inr (([Obstacle ''rect'' (5, 0) (Extents 2 2) (Some 0),
            Obstacle ''circle'' (-3, 6) (Scalar 1) (Some 1),
            Obstacle ''rect'' (-5, 2) (Extents 2 1.5) (Some 1),
            Obstacle ''circle'' (-5, -2) (Scalar 1.5) (Some 1),
            Obstacle ''circle'' (-3, -6) (Scalar 1) (Some 1)], 2), 2021) \<and>
   (\<exists>q. calls (snd (main toy_library (toy_args ''2class_1'' 3) toy_world)) =
           [Torch_manual_seed 2021, Np_random_seed 2021,
            Construct_robot (RevolutePlanarRobot 2 (5404319552844595 / 18014398509481984) 3),
            Generate_data_planar_manipulators q] \<and>
         gen_obstacles q =
           [Obstacle ''rect'' (5, 0) (Extents 2 2) (Some 0),
            Obstacle ''circle'' (-3, 6) (Scalar 1) (Some 1),
            Obstacle ''rect'' (-5, 2) (Extents 2 1.5) (Some 1),
            Obstacle ''circle'' (-5, -2) (Scalar 1.5) (Some 1),
            Obstacle ''circle'' (-3, -6) (Scalar 1) (Some 1)])"
proof -
  let ?a = "toy_args ''2class_1'' 3"
  let ?obs = "[Obstacle ''rect'' (5, 0) (Extents 2 2) (Some 0),
            Obstacle ''circle'' (-3, 6) (Scalar 1) (Some 1),
            Obstacle ''rect'' (-5, 2) (Extents 2 1.5) (Some 1),
            Obstacle ''circle'' (-5, -2) (Scalar 1.5) (Some 1),
            Obstacle ''circle'' (-3, -6) (Scalar 1) (Some 1)]"
  have s: "torch_seed_ok toy_library (random_seed ?a)"
    "np_seed toy_library (random_seed ?a) = Some 2021"
    by (simp_all add: toy_args_def toy_seed_2021)
  have r: "resolve_scene toy_library ''2class_1'' 3 2021 = Inr ((?obs, 2), 2021)"
    by (simp add: resolve_scene_def predefined_obstacles_def lengths_def)
  then have "\<exists>g. resolve_scene toy_library (env_name ?a) (dof ?a) 2021 = Inr ((?obs, 2), g)"
    by (simp add: toy_args_def)
  from iffD1 [OF obstacles_passed_unchanged [OF s, of ?obs 2 toy_world] this]
  have "\<exists>q. calls (snd (main toy_library ?a toy_world)) =
           [Torch_manual_seed 2021, Np_random_seed 2021,
            Construct_robot (RevolutePlanarRobot 2 (5404319552844595 / 18014398509481984) 3),
            Generate_data_planar_manipulators q] \<and>
         gen_obstacles q = ?obs"
    by (simp add: toy_args_def toy_world_def)
  with s r show ?thesis by blast
qed

section \<open>The random scenes accept any number of joints\<close>

text \<open>
  Claim C9. For \<^verbatim>\<open>'7d_narrow'\<close> and \<^verbatim>\<open>'3d_halfnarrow'\<close> the run never ends with a
  \<^verbatim>\<open>KeyError\<close>, whatever the number of joints and the seed: the table of lengths is not
  consulted (the resolution does not depend on the number). With a seed that the
  libraries accept the run returns, and the number of joints is passed as it is to the
  constructor of the robot.
\<close>

theorem random_scene_any_dof:
  assumes "env_name a = ''7d_narrow'' \<or> env_name a = ''3d_halfnarrow''"
  shows "(\<forall>k. fst (main lib a w) \<noteq> Inl (KeyError k)) \<and>
         (\<forall>d g. resolve_scene lib (env_name a) d g = resolve_scene lib (env_name a) (dof a) g) \<and>
         (seed_accepted lib (random_seed a) \<longrightarrow>
            fst (main lib a w) = Inr () \<and>
            Construct_robot
              (RevolutePlanarRobot (if env_name a = ''7d_narrow'' then 1 else 2.5)
                 (width a) (dof a))
              \<in> set (calls (snd (main lib a w))))"
proof (intro conjI allI impI)
  fix k
  have "\<exists>obs len g'. resolve_scene lib (env_name a) (dof a) g = Inr ((obs, len), g')" for g
    using resolve_random [OF assms, of lib "dof a" g] by blast
  from resolved_no_key_error [of lib a w k, OF this]
  show "fst (main lib a w) \<noteq> Inl (KeyError k)" by blast
next
  fix d g
  show "resolve_scene lib (env_name a) d g = resolve_scene lib (env_name a) (dof a) g"
    by (rule resolve_random_dof [OF assms])
next
  assume "seed_accepted lib (random_seed a)"
  then obtain g0 where s: "torch_seed_ok lib (random_seed a)"
      "np_seed lib (random_seed a) = Some g0"
    by (auto simp: seed_accepted_def)
  from random_completes [OF assms s, of w "dof a"]
  obtain obs where c: "completes lib a w (if env_name a = ''7d_narrow'' then 1 else 2.5) obs"
    by blast
  then show "fst (main lib a w) = Inr ()"
    and "Construct_robot
           (RevolutePlanarRobot (if env_name a = ''7d_narrow'' then 1 else 2.5) (width a) (dof a))
           \<in> set (calls (snd (main lib a w)))"
    by (simp_all add: completes_def)
qed

text \<open>The scene \<^verbatim>\<open>'7d_narrow'\<close> with 5 joints, a number that the table of lengths does not have.\<close>

theorem random_scene_any_dof_witness:
  "(env_name (toy_args ''7d_narrow'' 5) = ''7d_narrow'' \<or>
    env_name (toy_args ''7d_narrow'' 5) = ''3d_halfnarrow'') \<and>
   seed_accepted toy_library (random_seed (toy_args ''7d_narrow'' 5)) \<and>
   fst (main toy_library (toy_args ''7d_narrow'' 5) toy_world) = Inr () \<and>
   Construct_robot (RevolutePlanarRobot 1 (5404319552844595 / 18014398509481984) 5)
     \<in> set (calls (snd (main toy_library (toy_args ''7d_narrow'' 5) toy_world)))"
proof -
  have h: "env_name (toy_args ''7d_narrow'' 5) = ''7d_narrow'' \<or>
      env_name (toy_args ''7d_narrow'' 5) = ''3d_halfnarrow''"
    by (simp add: toy_args_def)
  have s: "seed_accepted toy_library (random_seed (toy_args ''7d_narrow'' 5))"
    by (simp add: toy_args_def toy_seed_2021)
  have v: "env_name (toy_args ''7d_narrow'' 5) = ''7d_narrow''"
    "width (toy_args ''7d_narrow'' 5) = 5404319552844595 / 18014398509481984"
    "dof (toy_args ''7d_narrow'' 5) = 5"
    by (simp_all add: toy_args_def)
  from random_scene_any_dof [OF h, of toy_library toy_world] s
  have "fst (main toy_library (toy_args ''7d_narrow'' 5) toy_world) = Inr () \<and>
      Construct_robot
        (RevolutePlanarRobot (if env_name (toy_args ''7d_narrow'' 5) = ''7d_narrow'' then 1 else 2.5)
           (width (toy_args ''7d_narrow'' 5)) (dof (toy_args ''7d_narrow'' 5)))
        \<in> set (calls (snd (main toy_library (toy_args ''7d_narrow'' 5) toy_world)))"
    by blast
  then show ?thesis using h s unfolding v by simp
qed

section \<open>From the command line no lookup fails\<close>

text \<open>
  Claim C10. Started from the command line the script never ends with a \<^verbatim>\<open>KeyError\<close>:
  the parser accepts only the eight scene identifiers and the numbers of joints 2, 3
  and 7, for every accepted combination the scene resolves (no lookup fails, whatever
  the state of the generator) and \<^verbatim>\<open>main\<close> returns when the libraries accept the seed,
  and a rejected command line leaves with status 2 before \<^verbatim>\<open>main\<close> is called.
  Arguments on which \<^verbatim>\<open>main\<close> ends with a \<^verbatim>\<open>KeyError\<close> are never the result of
  parsing.
\<close>

theorem command_line_never_key_error:
  "(\<forall>k. fst (script lib c w) \<noteq> Inl (KeyError k)) \<and>
   (\<forall>a. parse_args c = Inr a \<longrightarrow>
      env_name a \<in> set env_choices \<and> dof a \<in> {2, 3, 7} \<and>
      script lib c w = main lib a w \<and>
      (\<forall>g. \<exists>obs len g'. resolve_scene lib (env_name a) (dof a) g = Inr ((obs, len), g')) \<and>
      (seed_accepted lib (random_seed a) \<longrightarrow> (\<exists>len obs. completes lib a w len obs))) \<and>
   (\<forall>e. parse_args c = Inl e \<longrightarrow> script lib c w = (Inl (SystemExit 2), w)) \<and>
   (\<forall>a k. fst (main lib a w) = Inl (KeyError k) \<longrightarrow> parse_args c \<noteq> Inr a)"
proof -
  have accepted: "fst (main lib a w) \<noteq> Inl (KeyError k) \<and>
      (\<forall>g. \<exists>obs len g'. resolve_scene lib (env_name a) (dof a) g = Inr ((obs, len), g')) \<and>
      (seed_accepted lib (random_seed a) \<longrightarrow> (\<exists>len obs. completes lib a w len obs))"
    if p: "parse_args c = Inr a" for a k
  proof -
    from parse_args_choices [OF p]
    have r: "\<exists>obs len g'. resolve_scene lib (env_name a) (dof a) g = Inr ((obs, len), g')" for g
      using choices_resolve [of "env_name a" "dof a" lib g] by blast
    from resolved_no_key_error [of lib a w k, OF r] r show ?thesis by blast
  qed
  have rejected: "e = SystemExit 2" if "parse_args c = Inl e" for e
    using that
    by (auto simp: parse_args_def chosen_def split: sum.splits option.splits if_splits)
  show ?thesis
  proof (intro conjI allI impI)
    fix k
    show "fst (script lib c w) \<noteq> Inl (KeyError k)"
    proof (cases "parse_args c")
      case (Inl e)
      with rejected [OF Inl] show ?thesis by (simp add: script_def)
    next
      case (Inr a)
      with accepted [OF Inr, of k] show ?thesis by (simp add: script_def)
    qed
  next
    fix a assume p: "parse_args c = Inr a"
    from parse_args_choices [OF p] show "env_name a \<in> set env_choices" by simp
    from parse_args_choices [OF p] show "dof a \<in> {2, 3, 7}" by (simp add: dof_choices_def)
    from p show "script lib c w = main lib a w" by (simp add: script_def)
    fix g
    from accepted [OF p]
    show "\<exists>obs len g'. resolve_scene lib (env_name a) (dof a) g = Inr ((obs, len), g')"
      by blast
  next
    fix a assume p: "parse_args c = Inr a" and "seed_accepted lib (random_seed a)"
    with accepted [OF p] show "\<exists>len obs. completes lib a w len obs" by blast
  next
    fix e assume p: "parse_args c = Inl e"
    with rejected [OF p] show "script lib c w = (Inl (SystemExit 2), w)"
      by (simp add: script_def)
  next
    fix a k assume f: "fst (main lib a w) = Inl (KeyError k)"
    show "parse_args c \<noteq> Inr a"
    proof
      assume "parse_args c = Inr a"
      from accepted [OF this, of k] f show False by simp
    qed
  qed
qed

text \<open>
  An accepted command line whose seed the libraries accept, one whose seed numpy rejects
  (the run ends with \<^verbatim>\<open>ValueError\<close>, not with a \<^verbatim>\<open>KeyError\<close>), a rejected command line,
  and arguments that fail in a direct call.
\<close>

theorem command_line_never_key_error_witness:
  "parse_args (no_options\<lparr>opt_env := Some ''3circle'', opt_dof := Some 7\<rparr>)
     = Inr (toy_args ''3circle'' 7) \<and>
   seed_accepted toy_library (random_seed (toy_args ''3circle'' 7)) \<and>
   env_name (toy_args ''3circle'' 7) \<in> set env_choices \<and>
   dof (toy_args ''3circle'' 7) \<in> {2, 3, 7} \<and>
   (\<exists>len obs. completes toy_library (toy_args ''3circle'' 7) toy_world len obs) \<and>
   parse_args (no_options\<lparr>opt_random_seed := Some (- 1)\<rparr>)
     = Inr ((toy_args ''3d_halfnarrow'' 3)\<lparr>random_seed := - 1\<rparr>) \<and>
   script toy_library (no_options\<lparr>opt_random_seed := Some (- 1)\<rparr>) toy_world
     = (Inl ValueError,
        \<lparr>np_random = 7, calls = [Torch_manual_seed (- 1), Np_random_seed (- 1)]\<rparr>) \<and>
   parse_args (no_options\<lparr>opt_env := Some ''3circle'', opt_dof := Some 5\<rparr>)
     = Inl (SystemExit 2) \<and>
   script toy_library (no_options\<lparr>opt_env := Some ''3circle'', opt_dof := Some 5\<rparr>) toy_world
     = (Inl (SystemExit 2), toy_world) \<and>
   fst (main toy_library (toy_args ''3circle'' 5) toy_world) = Inl (KeyError (IntKey 5)) \<and>
   parse_args (no_options\<lparr>opt_env := Some ''3circle'', opt_dof := Some 5\<rparr>)
     \<noteq> Inr (toy_args ''3circle'' 5)"
proof -
  let ?ok = "no_options\<lparr>opt_env := Some ''3circle'', opt_dof := Some 7\<rparr>"
  let ?neg = "no_options\<lparr>opt_random_seed := Some (- 1)\<rparr>"
  let ?bad = "no_options\<lparr>opt_env := Some ''3circle'', opt_dof := Some 5\<rparr>"
  have p: "parse_args ?ok = Inr (toy_args ''3circle'' 7)"
    by (simp add: parse_args_def chosen_def no_options_def toy_args_def env_choices_def
        label_choices_def dof_choices_def)
  have n: "parse_args ?neg = Inr ((toy_args ''3d_halfnarrow'' 3)\<lparr>random_seed := - 1\<rparr>)"
    by (simp add: parse_args_def chosen_def no_options_def toy_args_def env_choices_def
        label_choices_def dof_choices_def)
  have q: "parse_args ?bad = Inl (SystemExit 2)"
    by (simp add: parse_args_def chosen_def no_options_def env_choices_def
        label_choices_def dof_choices_def)
  have s: "seed_accepted toy_library (random_seed (toy_args e d))"
    "torch_seed_ok toy_library (random_seed (toy_args e d))"
    "np_seed toy_library (random_seed (toy_args e d)) = Some 2021" for e d
    by (simp_all add: toy_args_def toy_seed_2021)
  have m: "main toy_library ((toy_args ''3d_halfnarrow'' 3)\<lparr>random_seed := - 1\<rparr>) toy_world
      = (Inl ValueError,
         \<lparr>np_random = 7, calls = [Torch_manual_seed (- 1), Np_random_seed (- 1)]\<rparr>)"
    by (simp add: main_def seeded_def toy_library_def toy_args_def toy_world_def Let_def)
  have "predefined_obstacles (env_name (toy_args ''3circle'' 5)) =
      Some [Obstacle ''circle'' (0, 4.5) (Scalar 1) None,
            Obstacle ''circle'' (-2, -3) (Scalar 2) None,
            Obstacle ''circle'' (-2, 2) (Scalar 1.5) None]"
    and "lengths (dof (toy_args ''3circle'' 5)) = None"
    by (simp_all add: toy_args_def predefined_obstacles_def lengths_def)
  then have "raises toy_library (toy_args ''3circle'' 5) toy_world
      (KeyError (IntKey (dof (toy_args ''3circle'' 5))))"
    by (rule catalog_raises [OF s(2,3)])
  then have f: "fst (main toy_library (toy_args ''3circle'' 5) toy_world)
      = Inl (KeyError (IntKey 5))"
    by (simp add: raises_def toy_args_def)
  note ok = command_line_never_key_error [of toy_library ?ok toy_world]
  note neg = command_line_never_key_error [of toy_library ?neg toy_world]
  note bad = command_line_never_key_error [of toy_library ?bad toy_world]
  from ok p s(1) [of "''3circle''" 7]
  have "env_name (toy_args ''3circle'' 7) \<in> set env_choices \<and>
      dof (toy_args ''3circle'' 7) \<in> {2, 3, 7} \<and>
      (\<exists>len obs. completes toy_library (toy_args ''3circle'' 7) toy_world len obs)"
    by blast
  moreover from neg n
  have "script toy_library ?neg toy_world
      = main toy_library ((toy_args ''3d_halfnarrow'' 3)\<lparr>random_seed := - 1\<rparr>) toy_world"
    by blast
  moreover from bad q have "script toy_library ?bad toy_world = (Inl (SystemExit 2), toy_world)"
    by blast
  moreover from bad f have "parse_args ?bad \<noteq> Inr (toy_args ''3circle'' 5)"
    by blast
  ultimately show ?thesis using p n q f m s(1) [of "''3circle''" 7] by simp
qed

end
